theory Spec2Isabelle
  imports
    Complex_Main
    "HOL-Library.AList"
    "HOL-Library.Char_ord"
    "HOL-Library.List_Lexorder"
    "HOL-Library.Multiset"
begin

section \<open>The audio splitter: data model\<close>

text \<open>
  The program is one Python procedure, \<open>split_audio_by_size\<close>, and its command-line
  wrapper \<open>main\<close>. Everything the procedure reads from outside itself is collected in a
  record \<open>world\<close> (what the external tools answer), everything it changes is a field of
  \<open>state\<close> (the files it touches, what it printed, which calls it made, in order), and
  every exception it can raise is a value of \<open>pyexc\<close>.

  Limits of the model, stated once: the external tools end; outside the segmenting
  stage, whose handler catches every exception, the operating system's own failures
  (permissions, a full disk) do not occur; a file's size is what \<open>st_size\<close> can
  hold, below \<open>2^63\<close>, far from the range where converting an \<open>int\<close> to a \<open>float\<close>
  can fail; the sign of a floating-point zero, which this program cannot observe, is not
  kept.
\<close>

subsection \<open>Exceptions\<close>

text \<open>
  The four \<open>RuntimeError\<close>s of the source differ in their message only; \<open>err_kind\<close>
  names the message. \<open>FileNotFoundError\<close> carries the path it is about.
  \<open>OtherException\<close> stands for any further subclass of \<open>Exception\<close>, by its name.
\<close>

datatype err_kind =
    DependencyMissing
  | ProbeFailure
  | CalibrationFailed
  | SegmentationFailed int

datatype pyexc =
    RuntimeError err_kind
  | FileNotFoundError string
  | AttributeError
  | ZeroDivisionError
  | ValueError
  | OverflowError
  | UnicodeDecodeError
  | OtherException string

subsection \<open>Floats\<close>

text \<open>
  A Python \<open>float\<close> is an IEEE double: a finite value, kept here as the rational it
  denotes, an infinity, or NaN. An arithmetic result is the exact result rounded to the
  nearest double, ties to the even significand, and to an infinity when it is out of
  range.
\<close>

datatype pyfloat = Finite rat | PosInf | NegInf | NaN

definition is_inf :: "pyfloat \<Rightarrow> bool" where
  "is_inf x = (x = PosInf \<or> x = NegInf)"

definition negative :: "pyfloat \<Rightarrow> bool" where
  "negative x = (case x of Finite q \<Rightarrow> q < 0 | NegInf \<Rightarrow> True | _ \<Rightarrow> False)"

definition signed_inf :: "bool \<Rightarrow> pyfloat" where
  "signed_inf neg = (if neg then NegInf else PosInf)"

definition pow2 :: "int \<Rightarrow> rat" where
  "pow2 k = (if 0 \<le> k then 2 ^ nat k else 1 / 2 ^ nat (- k))"

fun bit_length :: "nat \<Rightarrow> nat" where
  "bit_length n = (if n = 0 then 0 else Suc (bit_length (n div 2)))"

declare bit_length.simps [simp del]

text \<open>For \<open>a > 0\<close>, the \<open>k\<close> with \<open>2^k \<le> a < 2^(k+1)\<close>.\<close>

definition binade :: "rat \<Rightarrow> int" where
  "binade a =
     (if 1 \<le> a then int (bit_length (nat \<lfloor>a\<rfloor>)) - 1
      else - int (bit_length (nat (\<lceil>1 / a\<rceil> - 1))))"

definition round_half_even :: "rat \<Rightarrow> int" where
  "round_half_even x =
     (let n = \<lfloor>x\<rfloor>; d = x - of_int n
      in if d < 1 / 2 then n else if 1 / 2 < d then n + 1 else if even n then n else n + 1)"

text \<open>
  Rounding to a double: 53 significant bits, the least exponent \<open>-1074\<close> (so small
  values lose bits gradually and may round to zero), and an infinity from
  \<open>2^1024 - 2^970\<close> on, the midpoint between the largest double and \<open>2^1024\<close>.
\<close>

definition round_double :: "rat \<Rightarrow> pyfloat" where
  "round_double x =
     (let a = \<bar>x\<bar>
      in if a = 0 then Finite 0
         else if (2 ^ 54 - 1) * 2 ^ 970 \<le> a then signed_inf (x < 0)
         else let e = max (binade a - 52) (- 1074);
                  m = round_half_even (a / pow2 e)
              in Finite (sgn x * of_int m * pow2 e))"

text \<open>\<open>x * y\<close> on Python floats: never raises.\<close>

definition py_mul :: "pyfloat \<Rightarrow> pyfloat \<Rightarrow> pyfloat" where
  "py_mul x y =
     (case (x, y) of
        (Finite a, Finite b) \<Rightarrow> round_double (a * b)
      | _ \<Rightarrow>
          if x = NaN \<or> y = NaN \<or> x = Finite 0 \<or> y = Finite 0 then NaN
          else signed_inf (negative x \<noteq> negative y))"

text \<open>
  \<open>x / y\<close> on Python floats: a zero divisor raises \<open>ZeroDivisionError\<close> whatever the
  dividend is; otherwise the IEEE quotient.
\<close>

definition py_truediv :: "pyfloat \<Rightarrow> pyfloat \<Rightarrow> pyexc + pyfloat" where
  "py_truediv x y =
     (if y = Finite 0 then Inl ZeroDivisionError
      else case (x, y) of
        (Finite a, Finite b) \<Rightarrow> Inr (round_double (a / b))
      | (Finite a, _) \<Rightarrow> Inr (if y = NaN then NaN else Finite 0)
      | _ \<Rightarrow>
          if x = NaN \<or> y = NaN \<or> is_inf y then Inr NaN
          else Inr (signed_inf (negative x \<noteq> negative y)))"

text \<open>\<open>math.floor\<close>: an \<open>int\<close>, or \<open>ValueError\<close> on NaN, \<open>OverflowError\<close> on an infinity.\<close>

definition py_floor :: "pyfloat \<Rightarrow> pyexc + int" where
  "py_floor x =
     (case x of
        Finite q \<Rightarrow> Inr \<lfloor>q\<rfloor>
      | NaN \<Rightarrow> Inl ValueError
      | _ \<Rightarrow> Inl OverflowError)"

subsection \<open>Paths\<close>

text \<open>
  \<open>pathlib\<close> on POSIX keeps of a path its root (\<open>/\<close>, or \<open>//\<close> when the string starts
  with exactly two slashes) and its parts: the pieces between slashes, without the empty
  ones and the dots. \<open>name\<close> is the last part, \<open>parent\<close> the path without it, \<open>stem\<close>
  the name without its last suffix, and \<open>str\<close> joins root and parts again.
\<close>

fun split_slash :: "string \<Rightarrow> string list" where
  "split_slash [] = [[]]"
| "split_slash (c # cs) =
     (if c = CHR ''/'' then [] # split_slash cs
      else (c # hd (split_slash cs)) # tl (split_slash cs))"

definition path_parts :: "string \<Rightarrow> string list" where
  "path_parts p = filter (\<lambda>x. x \<noteq> [] \<and> x \<noteq> ''.'') (split_slash p)"

definition path_root :: "string \<Rightarrow> string" where
  "path_root p =
     (if take 2 p = ''//'' \<and> take 3 p \<noteq> ''///'' then ''//''
      else if take 1 p = ''/'' then ''/'' else [])"

fun join_slash :: "string list \<Rightarrow> string" where
  "join_slash [] = []"
| "join_slash [x] = x"
| "join_slash (x # y # ys) = x @ ''/'' @ join_slash (y # ys)"

definition path_str :: "string \<Rightarrow> string list \<Rightarrow> string" where
  "path_str anchor parts =
     (if parts = [] then (if anchor = [] then ''.'' else anchor) else anchor @ join_slash parts)"

definition path_name :: "string \<Rightarrow> string" where
  "path_name p = (if path_parts p = [] then [] else last (path_parts p))"

definition path_stem :: "string \<Rightarrow> string" where
  "path_stem p =
     (let n = path_name p;
          i = length n - length (takeWhile (\<lambda>c. c \<noteq> CHR ''.'') (rev n)) - 1
      in if CHR ''.'' \<in> set n \<and> 0 < i \<and> i < length n - 1 then take i n else n)"

text \<open>Line 36: \<open>source_path.parent / f"{source_path.stem}_chunks"\<close>, as a string.\<close>

definition output_dir :: "string \<Rightarrow> string" where
  "output_dir input_file =
     path_str (path_root input_file)
       (butlast (path_parts input_file) @ [path_stem input_file @ ''_chunks''])"

text \<open>Line 57: the name of the calibration file inside the output directory.\<close>

definition temp_name :: "string \<Rightarrow> string" where
  "temp_name input_file = ''temp_'' @ path_stem input_file @ ''.flac''"

text \<open>
  A file of the output directory, as the string \<open>str(output_dir / name)\<close>; the output
  directory always has a last part, so the name follows a slash.
\<close>

definition in_output_dir :: "string \<Rightarrow> string \<Rightarrow> string" where
  "in_output_dir input_file n = output_dir input_file @ ''/'' @ n"

subsection \<open>Chunk names\<close>

text \<open>
  Line 95 hands the encoder the pattern \<open>part_%03d.flac\<close>: the index in decimal,
  padded with zeros to at least three digits.
\<close>

definition digit_char :: "nat \<Rightarrow> char" where
  "digit_char k = char_of (48 + k)"

fun decimal :: "nat \<Rightarrow> string" where
  "decimal n = (if n < 10 then [digit_char n] else decimal (n div 10) @ [digit_char (n mod 10)])"

declare decimal.simps [simp del]

definition fmt_03d :: "nat \<Rightarrow> string" where
  "fmt_03d n = (let ds = decimal n in replicate (3 - length ds) (CHR ''0'') @ ds)"

definition chunk_name :: "nat \<Rightarrow> string" where
  "chunk_name i = ''part_'' @ fmt_03d i @ ''.flac''"

text \<open>Line 143: the glob pattern \<open>part_*.flac\<close>, the star matching any run of characters.\<close>

definition matches_part :: "string \<Rightarrow> bool" where
  "matches_part n =
     (10 \<le> length n \<and> take 5 n = ''part_'' \<and> drop (length n - 5) n = ''.flac'')"

subsection \<open>The world and the state\<close>

text \<open>
  What the environment answers during one run:
  \<^item> whether \<open>shutil.which\<close> finds each executable;
  \<^item> the exit code of the duration probe; whether the output of a probe that exits
    non-zero can be decoded (\<open>subprocess.run\<close> with \<open>text=True\<close> decodes it before it
    looks at the exit code); and, for a probe that exits with code 0, the value of
    \<open>float(result.stdout.strip())\<close>, \<open>None\<close> when a \<open>ValueError\<close> is raised instead:
    by \<open>float\<close>, or by the decoding, whose \<open>UnicodeDecodeError\<close> is a \<open>ValueError\<close>;
  \<^item> the exit code of the calibration encode, whether the bytes it wrote on its error
    stream are valid UTF-8, and the size of the file it leaves at the temporary path
    (\<open>None\<close>: it leaves the path as it was);
  \<^item> for the segmenting encode: the exception that lines 113-129 raise, if any
    (starting the process, the progress bar, or the decoding of a line of the
    diagnostic stream, which is read as UTF-8 text); the exit code of the encoder; the
    sizes of the chunk files written by the time the procedure returns, in order, chunk
    \<open>i\<close> under the name \<open>part_%03d.flac\<close> of \<open>i\<close>; and how many times the progress
    bar, which draws on the error stream, was drawn.
\<close>

record world =
  which_ffmpeg :: bool
  which_ffprobe :: bool
  probe_exit :: int
  probe_decodes :: bool
  probe_value :: "pyfloat option"
  calib_exit :: int
  calib_stderr_utf8 :: bool
  calib_written :: "nat option"
  seg_error :: "pyexc option"
  seg_exit :: int
  seg_chunks :: "nat list"
  bar_renders :: nat

datatype tool = Ffprobe | FfmpegCalibrate | FfmpegSegment

datatype event =
    Which string
  | IsFile string
  | Mkdir string
  | Run tool
  | Stat string
  | Exists string
  | Unlink string
  | Glob string

text \<open>
  The messages of the source are Russian sentences; the model keeps which message it is
  and the values it shows. \<open>ProgressBar\<close> is one drawing of the progress bar.
\<close>

datatype msg =
    MsgOutputDir string
  | MsgAnalysing
  | MsgAnalysed int
  | MsgStarting
  | ProgressBar
  | MsgSplitError pyexc
  | MsgDone nat
  | MsgListHeader
  | MsgListItem string
  | MsgCritical pyexc

text \<open>
  The state: whether the source path is a regular file, whether the output directory
  exists, the entries of the output directory (name and size, in the order a listing
  gives them), the calls made so far, and the two output streams.
\<close>

record state =
  source_is_file :: bool
  out_dir_exists :: bool
  out_entries :: "(string \<times> nat) list"
  trace :: "event list"
  stdout :: "msg list"
  stderr :: "msg list"

definition init_state :: "bool \<Rightarrow> bool \<Rightarrow> (string \<times> nat) list \<Rightarrow> state" where
  "init_state is_file dir_exists entries =
     \<lparr>source_is_file = is_file, out_dir_exists = dir_exists, out_entries = entries,
      trace = [], stdout = [], stderr = []\<rparr>"

definition log :: "event \<Rightarrow> state \<Rightarrow> state" where
  "log e s = s\<lparr>trace := trace s @ [e]\<rparr>"

definition print_out :: "msg \<Rightarrow> state \<Rightarrow> state" where
  "print_out m s = s\<lparr>stdout := stdout s @ [m]\<rparr>"

definition print_err :: "msg \<Rightarrow> state \<Rightarrow> state" where
  "print_err m s = s\<lparr>stderr := stderr s @ [m]\<rparr>"

definition entry_names :: "state \<Rightarrow> string list" where
  "entry_names s = map fst (out_entries s)"

section \<open>The procedure\<close>

subsection \<open>Lines 28-33: the two precondition checks\<close>

definition check_dependencies :: "world \<Rightarrow> state \<Rightarrow> (pyexc + unit) \<times> state" where
  "check_dependencies w s =
     (let s1 = log (Which ''ffmpeg'') s
      in if \<not> which_ffmpeg w then (Inl (RuntimeError DependencyMissing), s1)
         else let s2 = log (Which ''ffprobe'') s1
              in if \<not> which_ffprobe w then (Inl (RuntimeError DependencyMissing), s2)
                 else (Inr (), s2))"

definition check_source :: "string \<Rightarrow> state \<Rightarrow> (pyexc + unit) \<times> state" where
  "check_source input_file s =
     (let s1 = log (IsFile input_file) s
      in if \<not> source_is_file s1 then (Inl (FileNotFoundError input_file), s1)
         else (Inr (), s1))"

subsection \<open>Lines 36-38: the output directory\<close>

text \<open>\<open>mkdir(exist_ok=True)\<close> creates the directory when it is absent and leaves it alone otherwise.\<close>

definition make_output_dir :: "string \<Rightarrow> state \<Rightarrow> state" where
  "make_output_dir input_file s =
     print_out (MsgOutputDir (output_dir input_file))
       ((log (Mkdir (output_dir input_file)) s)\<lparr>out_dir_exists := True\<rparr>)"

subsection \<open>Lines 41-52: the duration probe\<close>

text \<open>
  \<open>subprocess.run(..., text=True, check=True)\<close> raises \<open>UnicodeDecodeError\<close>, a
  \<open>ValueError\<close>, when it cannot decode the output, \<open>CalledProcessError\<close> on a non-zero
  exit, and \<open>float\<close> raises \<open>ValueError\<close>; the handler catches all of them and builds
  its message from \<open>e.stderr or e\<close>. A \<open>CalledProcessError\<close> has the attribute
  \<open>stderr\<close>; a \<open>ValueError\<close> has not, so evaluating \<open>e.stderr\<close> raises
  \<open>AttributeError\<close> inside the handler, and that is what leaves the procedure.
\<close>

definition probe_duration :: "world \<Rightarrow> state \<Rightarrow> (pyexc + pyfloat) \<times> state" where
  "probe_duration w s =
     (let s1 = log (Run Ffprobe) s
      in if probe_exit w \<noteq> 0
         then (if probe_decodes w then (Inl (RuntimeError ProbeFailure), s1)
               else (Inl AttributeError, s1))
         else case probe_value w of
                None \<Rightarrow> (Inl AttributeError, s1)
              | Some d \<Rightarrow> (Inr d, s1))"

subsection \<open>Lines 78-83: the segment duration\<close>

text \<open>Line 78: an \<open>int\<close> divided by a \<open>float\<close>; the \<open>int\<close> is converted first.\<close>

definition bytes_per_second :: "nat \<Rightarrow> pyfloat \<Rightarrow> pyexc + pyfloat" where
  "bytes_per_second temp_file_size_bytes total_duration =
     py_truediv (round_double (of_nat temp_file_size_bytes)) total_duration"

definition segment_duration :: "pyfloat \<Rightarrow> pyfloat \<Rightarrow> pyexc + int" where
  "segment_duration chunk_size_mb bps =
     (let chunk_size_bytes = py_mul (py_mul chunk_size_mb (Finite 1024)) (Finite 1024)
      in case py_truediv chunk_size_bytes bps of
           Inl e \<Rightarrow> Inl e
         | Inr q \<Rightarrow>
             (case py_floor q of
                Inl e \<Rightarrow> Inl e
              | Inr n \<Rightarrow> Inr (if n \<le> 0 then 60 else n)))"

subsection \<open>Lines 60-92: the calibration encode, with its cleanup\<close>

text \<open>
  The body of the \<open>try\<close> with its handler. The handler of \<open>CalledProcessError\<close>
  decodes the encoder's error stream as UTF-8 to build its message; when the bytes are
  not UTF-8 the \<open>UnicodeDecodeError\<close> of that decoding leaves the procedure instead of
  the \<open>RuntimeError\<close>.
\<close>

definition analyze :: "world \<Rightarrow> string \<Rightarrow> pyfloat \<Rightarrow> pyfloat \<Rightarrow> state \<Rightarrow> (pyexc + int) \<times> state" where
  "analyze w input_file total_duration chunk_size_mb s =
     (let t = temp_name input_file;
          s1 = log (Run FfmpegCalibrate) s;
          s2 = (case calib_written w of
                  None \<Rightarrow> s1
                | Some z \<Rightarrow> s1\<lparr>out_entries := AList.update t z (out_entries s1)\<rparr>)
      in if calib_exit w \<noteq> 0
         then (if calib_stderr_utf8 w then (Inl (RuntimeError CalibrationFailed), s2)
               else (Inl UnicodeDecodeError, s2))
         else let s3 = log (Stat (in_output_dir input_file t)) s2
              in case map_of (out_entries s3) t of
                   None \<Rightarrow> (Inl (FileNotFoundError (in_output_dir input_file t)), s3)
                 | Some temp_file_size_bytes \<Rightarrow>
                     (case bytes_per_second temp_file_size_bytes total_duration of
                        Inl e \<Rightarrow> (Inl e, s3)
                      | Inr bps \<Rightarrow>
                          (case segment_duration chunk_size_mb bps of
                             Inl e \<Rightarrow> (Inl e, s3)
                           | Inr n \<Rightarrow> (Inr n, print_out (MsgAnalysed n) s3))))"

text \<open>The \<open>finally\<close> block: it runs after the body, whatever the body's outcome.\<close>

definition cleanup :: "string \<Rightarrow> state \<Rightarrow> state" where
  "cleanup input_file s =
     (let t = temp_name input_file;
          s1 = log (Exists (in_output_dir input_file t)) s
      in if t \<in> set (entry_names s1)
         then (log (Unlink (in_output_dir input_file t)) s1)
                \<lparr>out_entries := AList.delete t (out_entries s1)\<rparr>
         else s1)"

definition calibrate :: "world \<Rightarrow> string \<Rightarrow> pyfloat \<Rightarrow> pyfloat \<Rightarrow> state \<Rightarrow> (pyexc + int) \<times> state" where
  "calibrate w input_file total_duration chunk_size_mb s =
     (case analyze w input_file total_duration chunk_size_mb (print_out MsgAnalysing s) of
        (r, s1) \<Rightarrow> (r, cleanup input_file s1))"

subsection \<open>Lines 95-140: the segmenting encode\<close>

fun write_chunks :: "nat \<Rightarrow> nat list \<Rightarrow> (string \<times> nat) list \<Rightarrow> (string \<times> nat) list" where
  "write_chunks i [] es = es"
| "write_chunks i (z # zs) es = write_chunks (Suc i) zs (AList.update (chunk_name i) z es)"

text \<open>
  Lines 111-140. Inside the \<open>try\<close>: the encoder is started, the progress bar is
  created and fed from the encoder's diagnostic stream (lines 113-129), then the encoder
  is awaited and its exit code read; a non-zero code raises a \<open>RuntimeError\<close>. The
  handler \<open>except Exception\<close> of the same \<open>try\<close> catches that \<open>RuntimeError\<close> as well
  as anything lines 113-129 raised, in which case the exit code is never read; it prints
  the exception on the error stream and returns the empty list. What the progress display
  computes reaches nothing outside it: of lines 113-129 the model keeps the drawings of
  the bar and the exception. The result here is \<open>True\<close> when the procedure goes on to
  enumerate the chunks.
\<close>

definition run_segmentation :: "world \<Rightarrow> state \<Rightarrow> bool \<times> state" where
  "run_segmentation w s =
     (let s1 = log (Run FfmpegSegment) (print_out MsgStarting s);
          s2 = s1\<lparr>out_entries := write_chunks 0 (seg_chunks w) (out_entries s1),
                  stderr := stderr s1 @ replicate (bar_renders w) ProgressBar\<rparr>
      in case seg_error w of
           Some e \<Rightarrow> (False, print_err (MsgSplitError e) s2)
         | None \<Rightarrow>
             if seg_exit w \<noteq> 0
             then (False,
                   print_err (MsgSplitError (RuntimeError (SegmentationFailed (seg_exit w)))) s2)
             else (True, s2))"

subsection \<open>Lines 143-145: the list of chunks\<close>

definition glob_parts :: "state \<Rightarrow> string list" where
  "glob_parts s = filter matches_part (entry_names s)"

definition collect_chunks :: "string \<Rightarrow> state \<Rightarrow> string list \<times> state" where
  "collect_chunks input_file s =
     (let s1 = log (Glob (output_dir input_file)) s;
          chunk_files = sort (map (in_output_dir input_file) (glob_parts s1))
      in (chunk_files, print_out (MsgDone (length chunk_files)) s1))"

subsection \<open>The whole procedure\<close>

definition split_audio_by_size ::
    "world \<Rightarrow> string \<Rightarrow> pyfloat \<Rightarrow> state \<Rightarrow> (pyexc + string list) \<times> state" where
  "split_audio_by_size w input_file chunk_size_mb s =
     (case check_dependencies w s of
        (Inl e, s1) \<Rightarrow> (Inl e, s1)
      | (Inr _, s1) \<Rightarrow>
     (case check_source input_file s1 of
        (Inl e, s2) \<Rightarrow> (Inl e, s2)
      | (Inr _, s2) \<Rightarrow>
     (case probe_duration w (make_output_dir input_file s2) of
        (Inl e, s3) \<Rightarrow> (Inl e, s3)
      | (Inr total_duration, s3) \<Rightarrow>
     (case calibrate w input_file total_duration chunk_size_mb s3 of
        (Inl e, s4) \<Rightarrow> (Inl e, s4)
      | (Inr seconds, s4) \<Rightarrow>
     (case run_segmentation w s4 of
        (False, s5) \<Rightarrow> (Inr [], s5)
      | (True, s5) \<Rightarrow>
          (case collect_chunks input_file s5 of (chunk_files, s6) \<Rightarrow> (Inr chunk_files, s6)))))))"

subsection \<open>Lines 168-176: the command line\<close>

text \<open>
  \<open>main\<close> returns normally, leaves through \<open>sys.exit\<close>, or lets an exception it does
  not catch escape; the interpreter turns the first into exit status 0 and the last into
  exit status 1.
\<close>

datatype outcome = Returned | SysExit int | Uncaught pyexc

definition exit_code :: "outcome \<Rightarrow> int" where
  "exit_code r = (case r of Returned \<Rightarrow> 0 | SysExit n \<Rightarrow> n | Uncaught e \<Rightarrow> 1)"

text \<open>The classes named by \<open>except (FileNotFoundError, RuntimeError)\<close>.\<close>

definition caught_by_main :: "pyexc \<Rightarrow> bool" where
  "caught_by_main e = (case e of RuntimeError k \<Rightarrow> True | FileNotFoundError p \<Rightarrow> True | _ \<Rightarrow> False)"

definition main :: "world \<Rightarrow> string \<Rightarrow> pyfloat \<Rightarrow> state \<Rightarrow> outcome \<times> state" where
  "main w input_file size_mb s =
     (case split_audio_by_size w input_file size_mb s of
        (Inr created_files, s1) \<Rightarrow>
          (if created_files \<noteq> []
           then (Returned, fold (\<lambda>f. print_out (MsgListItem f)) created_files (print_out MsgListHeader s1))
           else (Returned, s1))
      | (Inl e, s1) \<Rightarrow>
          (if caught_by_main e then (SysExit 1, print_err (MsgCritical e) s1)
           else (Uncaught e, s1)))"

section \<open>The specification's vocabulary\<close>

text \<open>
  The error taxonomy of the specification: dependency-missing, source-not-found,
  probe-failure and encode-failure. In the program these are the \<open>RuntimeError\<close>s it
  raises itself and the \<open>FileNotFoundError\<close> about the source path.
\<close>

definition defined_error_kind :: "string \<Rightarrow> pyexc \<Rightarrow> bool" where
  "defined_error_kind input_file e =
     (case e of RuntimeError k \<Rightarrow> True | FileNotFoundError p \<Rightarrow> p = input_file | _ \<Rightarrow> False)"

text \<open>A float that is zero, positive or plus infinity.\<close>

definition nonneg_or_inf :: "pyfloat \<Rightarrow> bool" where
  "nonneg_or_inf x = (case x of Finite q \<Rightarrow> 0 \<le> q | PosInf \<Rightarrow> True | _ \<Rightarrow> False)"

text \<open>
  A run in which everything works: a source of 100 seconds whose calibration file has
  3,200,000 bytes (32,000 bytes per second), cut into four chunks, the progress bar
  drawn twice.
\<close>

definition world_ok :: world where
  "world_ok = \<lparr>which_ffmpeg = True, which_ffprobe = True, probe_exit = 0,
     probe_decodes = True, probe_value = Some (Finite 100), calib_exit = 0,
     calib_stderr_utf8 = True, calib_written = Some 3200000, seg_error = None,
     seg_exit = 0, seg_chunks = [1000000, 1000000, 1000000, 200000], bar_renders = 2\<rparr>"

section \<open>Properties\<close>

lemmas float_defs = py_mul_def py_truediv_def py_floor_def is_inf_def negative_def signed_inf_def

lemmas round_defs = round_double_def binade_def round_half_even_def pow2_def bit_length.simps

lemmas path_defs =
  temp_name_def in_output_dir_def output_dir_def path_str_def path_root_def path_parts_def
  path_stem_def path_name_def

lemmas step_defs =
  check_dependencies_def check_source_def make_output_dir_def probe_duration_def
  calibrate_def analyze_def cleanup_def run_segmentation_def collect_chunks_def
  glob_parts_def entry_names_def log_def print_out_def print_err_def init_state_def

lemma floor_rat_numeral [simp]:
  "\<lfloor>(numeral a :: rat) / numeral b\<rfloor> = numeral a div numeral b"
  using floor_divide_of_int_eq [of "numeral a" "numeral b", where ?'a = rat] by simp

subsection \<open>Rounding\<close>

lemma pow2_pos: "0 < pow2 k"
  by (simp add: pow2_def)

lemma round_half_even_nonneg: "0 \<le> x \<Longrightarrow> 0 \<le> round_half_even x"
  by (simp add: round_half_even_def Let_def)

lemma round_double_nonneg:
  assumes "0 \<le> x"
  shows "nonneg_or_inf (round_double x)"
proof (cases "x = 0")
  case True
  then show ?thesis
    by (simp add: round_double_def nonneg_or_inf_def)
next
  case False
  with assms have x: "0 < x"
    by simp
  let ?e = "max (binade \<bar>x\<bar> - 52) (- 1074)"
  have "0 \<le> \<bar>x\<bar> / pow2 ?e"
    using pow2_pos [of ?e] by simp
  then have "0 \<le> round_half_even (\<bar>x\<bar> / pow2 ?e)"
    by (rule round_half_even_nonneg)
  then have "0 \<le> sgn x * rat_of_int (round_half_even (\<bar>x\<bar> / pow2 ?e)) * pow2 ?e"
    using x pow2_pos [of ?e] by simp
  then show ?thesis
    using x by (simp add: round_double_def nonneg_or_inf_def signed_inf_def Let_def)
qed

lemma py_mul_nonneg:
  assumes "nonneg_or_inf x" and "0 < b"
  shows "nonneg_or_inf (py_mul x (Finite b))"
proof (cases "x = PosInf")
  case True
  with assms(2) show ?thesis
    by (simp add: py_mul_def nonneg_or_inf_def negative_def signed_inf_def)
next
  case False
  with assms(1) obtain a where "x = Finite a" and "0 \<le> a"
    by (cases x) (auto simp: nonneg_or_inf_def)
  with assms(2) show ?thesis
    using round_double_nonneg [of "a * b"] by (simp add: py_mul_def)
qed

lemma py_truediv_nonneg:
  assumes "nonneg_or_inf x" and "0 < r"
  shows "\<exists>q. py_truediv x (Finite r) = Inr q \<and> nonneg_or_inf q"
proof (cases "x = PosInf")
  case True
  with assms(2) show ?thesis
    by (simp add: py_truediv_def nonneg_or_inf_def negative_def signed_inf_def is_inf_def)
next
  case False
  with assms(1) obtain a where "x = Finite a" and "0 \<le> a"
    by (cases x) (auto simp: nonneg_or_inf_def)
  with assms(2) show ?thesis
    using round_double_nonneg [of "a / r"] by (simp add: py_truediv_def)
qed

lemma calc_world_ok:
  "bytes_per_second 3200000 (Finite 100) = Inr (Finite 32000)"
  "segment_duration (Finite 1) (Finite 32000) = Inr 32"
  by (simp_all add: bytes_per_second_def segment_duration_def float_defs round_defs Let_def)

text \<open>
  The quotient is rounded as the machine rounds it: \<open>1048576 / 209715.2\<close>, whose
  divisor is the double next to that decimal, is a little below 5 and rounds to 5.
\<close>

lemma segment_duration_rounds:
  "segment_duration (Finite 1) (Finite (3602879701896397 / 17179869184)) = Inr 5"
  by (simp add: segment_duration_def float_defs round_defs Let_def)

subsection \<open>Digits and chunk names\<close>

lemma digit_char_values:
  "digit_char 0 = CHR ''0''" "digit_char 1 = CHR ''1''" "digit_char 2 = CHR ''2''"
  "digit_char 3 = CHR ''3''" "digit_char 4 = CHR ''4''" "digit_char 5 = CHR ''5''"
  "digit_char 6 = CHR ''6''" "digit_char 7 = CHR ''7''" "digit_char 8 = CHR ''8''"
  "digit_char 9 = CHR ''9''"
  by (simp_all add: digit_char_def char_of_eq_iff)

lemma of_char_digit_char: "k < 10 \<Longrightarrow> of_char (digit_char k) = 48 + k"
  by (simp add: digit_char_def take_bit_eq_mod)

lemma digit_char_less: "a < 10 \<Longrightarrow> b < 10 \<Longrightarrow> digit_char a < digit_char b \<longleftrightarrow> a < b"
  by (simp add: less_char_def of_char_digit_char)

lemma digit_char_eq: "a < 10 \<Longrightarrow> b < 10 \<Longrightarrow> digit_char a = digit_char b \<longleftrightarrow> a = b"
proof
  assume "a < 10" and "b < 10" and "digit_char a = digit_char b"
  then have "(of_char (digit_char a) :: nat) = of_char (digit_char b)"
    by simp
  with \<open>a < 10\<close> \<open>b < 10\<close> show "a = b"
    by (simp add: of_char_digit_char)
qed simp

lemma decimal_one_digit: "n < 10 \<Longrightarrow> decimal n = [digit_char n]"
  by (simp add: decimal.simps)

lemma decimal_two_digits:
  "10 \<le> n \<Longrightarrow> n < 100 \<Longrightarrow> decimal n = [digit_char (n div 10), digit_char (n mod 10)]"
  by (subst decimal.simps) (simp add: decimal_one_digit)

lemma decimal_three_digits:
  "100 \<le> n \<Longrightarrow> n < 1000 \<Longrightarrow>
     decimal n = [digit_char (n div 100), digit_char (n div 10 mod 10), digit_char (n mod 10)]"
proof -
  assume n: "100 \<le> n" "n < 1000"
  then have "10 \<le> n div 10" and "n div 10 < 100"
    by simp_all
  then have "decimal (n div 10) = [digit_char (n div 10 div 10), digit_char (n div 10 mod 10)]"
    by (rule decimal_two_digits)
  moreover have "n div 10 div 10 = n div 100"
    by (simp add: div_mult2_eq [symmetric])
  moreover have "decimal n = decimal (n div 10) @ [digit_char (n mod 10)]"
    using n by (subst decimal.simps) simp
  ultimately show ?thesis
    by simp
qed

lemma fmt_03d_small:
  assumes "n < 1000"
  shows "fmt_03d n = [digit_char (n div 100), digit_char (n div 10 mod 10), digit_char (n mod 10)]"
proof -
  consider "n < 10" | "10 \<le> n" "n < 100" | "100 \<le> n"
    by linarith
  then show ?thesis
  proof cases
    case 1
    then show ?thesis
      by (simp add: fmt_03d_def decimal_one_digit digit_char_values numeral_2_eq_2)
  next
    case 2
    then show ?thesis
      by (simp add: fmt_03d_def decimal_two_digits digit_char_values)
  next
    case 3
    then show ?thesis
      using assms by (simp add: fmt_03d_def decimal_three_digits)
  qed
qed

lemma chunk_name_small:
  "n < 1000 \<Longrightarrow> chunk_name n =
     ''part_'' @ [digit_char (n div 100), digit_char (n div 10 mod 10), digit_char (n mod 10)] @ ''.flac''"
  by (simp add: chunk_name_def fmt_03d_small)

lemma digit_char_Suc_0: "digit_char (Suc 0) = CHR ''1''"
  using digit_char_values(2) by simp

lemma chunk_name_values:
  "chunk_name 0 = ''part_000.flac''"
  "chunk_name (Suc 0) = ''part_001.flac''"
  "chunk_name (Suc (Suc 0)) = ''part_002.flac''"
  "chunk_name (Suc (Suc (Suc 0))) = ''part_003.flac''"
proof -
  have "chunk_name 2 = ''part_002.flac''" and "chunk_name 3 = ''part_003.flac''"
    by (simp_all add: chunk_name_small digit_char_values)
  then show "chunk_name (Suc (Suc 0)) = ''part_002.flac''"
    and "chunk_name (Suc (Suc (Suc 0))) = ''part_003.flac''"
    by (simp_all add: numeral_2_eq_2 numeral_3_eq_3)
qed (simp_all add: chunk_name_small digit_char_values digit_char_Suc_0)

lemmas chunk_eval = chunk_name_values matches_part_def less_char_def

lemma three_digits: "100 * (n div 100) + 10 * (n div 10 mod 10) + n mod 10 = (n::nat)"
proof -
  have "n div 10 = 10 * (n div 10 div 10) + n div 10 mod 10"
    by simp
  moreover have "n div 10 div 10 = n div 100"
    by (simp add: div_mult2_eq [symmetric])
  moreover have "n = 10 * (n div 10) + n mod 10"
    by simp
  ultimately show ?thesis
    by linarith
qed

lemma lex_three_digits:
  fixes a b c a' b' c' :: nat
  assumes "b < 10" and "c < 10" and "b' < 10" and "c' < 10"
  shows "(a < a' \<or> a = a' \<and> (b < b' \<or> b = b' \<and> c < c')) \<longleftrightarrow>
    100 * a + 10 * b + c < 100 * a' + 10 * b' + c'"
  using assms by linarith

lemma chunk_name_less:
  assumes "i < 1000" and "j < 1000"
  shows "chunk_name i < chunk_name j \<longleftrightarrow> i < j"
proof -
  have d: "i div 100 < 10" "i div 10 mod 10 < 10" "i mod 10 < 10"
    "j div 100 < 10" "j div 10 mod 10 < 10" "j mod 10 < 10"
    using assms by simp_all
  have "chunk_name i < chunk_name j \<longleftrightarrow>
      i div 100 < j div 100
      \<or> i div 100 = j div 100 \<and> (i div 10 mod 10 < j div 10 mod 10
          \<or> i div 10 mod 10 = j div 10 mod 10 \<and> i mod 10 < j mod 10)"
    using d by (simp add: chunk_name_small assms digit_char_less digit_char_eq)
  also have "\<dots> \<longleftrightarrow> i < j"
    using lex_three_digits [of "i div 10 mod 10" "i mod 10" "j div 10 mod 10" "j mod 10"
        "i div 100" "j div 100"] d
    by (simp add: three_digits)
  finally show ?thesis .
qed

subsection \<open>What the steps leave behind\<close>

lemma stderr_fold_print_out: "stderr (fold (\<lambda>f. print_out (g f)) xs s) = stderr s"
  by (induction xs arbitrary: s) (simp_all add: print_out_def)

lemma main_after_list:
  assumes "split_audio_by_size w f c s = (Inr xs, s1)"
  shows "fst (main w f c s) = Returned" and "stderr (snd (main w f c s)) = stderr s1"
  using assms by (simp_all add: main_def stderr_fold_print_out print_out_def)

lemma main_after_caught:
  assumes "split_audio_by_size w f c s = (Inl e, s1)" and "caught_by_main e"
  shows "fst (main w f c s) = SysExit 1" and "stderr (snd (main w f c s)) = stderr s1 @ [MsgCritical e]"
  using assms by (simp_all add: main_def print_err_def)

lemma split_error_prints_nothing:
  assumes "split_audio_by_size w f c (init_state isf dex es) = (Inl e, s1)"
  shows "stderr s1 = []"
  using assms
  by (auto simp: split_audio_by_size_def step_defs Let_def
      split: if_splits option.splits sum.splits prod.splits bool.splits)

lemma split_caught_failures:
  assumes "\<not> which_ffmpeg w \<or> \<not> which_ffprobe w \<or> \<not> isf
        \<or> (probe_exit w \<noteq> 0 \<and> probe_decodes w)
        \<or> (probe_exit w = 0 \<and> probe_value w \<noteq> None \<and> calib_exit w \<noteq> 0 \<and> calib_stderr_utf8 w)"
  shows "\<exists>e. fst (split_audio_by_size w f c (init_state isf dex es)) = Inl e \<and> caught_by_main e"
  using assms
  by (auto simp: split_audio_by_size_def step_defs Let_def caught_by_main_def
      split: if_splits option.splits sum.splits prod.splits bool.splits)

lemma split_segmentation_failed:
  assumes "Run FfmpegSegment \<in> set (trace (snd (split_audio_by_size w f c (init_state isf dex es))))"
    and "seg_error w \<noteq> None \<or> seg_exit w \<noteq> 0"
  shows "\<exists>s1. split_audio_by_size w f c (init_state isf dex es) = (Inr [], s1)
         \<and> stderr s1 = replicate (bar_renders w) ProgressBar @
             [MsgSplitError (case seg_error w of
                               None \<Rightarrow> RuntimeError (SegmentationFailed (seg_exit w))
                             | Some e \<Rightarrow> e)]"
  using assms
  by (auto simp: split_audio_by_size_def step_defs Let_def
      split: if_splits option.splits sum.splits prod.splits)

subsection \<open>Names in the output directory\<close>

lemma keys_delete: "fst ` set (AList.delete k al) = fst ` set al - {k}"
proof -
  have "set (map fst (AList.delete k al)) = set (removeAll k (map fst al))"
    by (simp only: delete_keys)
  then show ?thesis
    by simp
qed

lemma keys_write_chunks:
  "fst ` set (write_chunks i zs es) = fst ` set es \<union> chunk_name ` {i..<i + length zs}"
proof (induction zs arbitrary: i es)
  case Nil
  then show ?case by simp
next
  case (Cons z zs)
  have "{i..<i + length (z # zs)} = insert i {Suc i..<Suc i + length zs}"
    by auto
  with Cons show ?case
    by (simp add: dom_update)
qed

lemma temp_not_chunk_name: "temp_name f \<noteq> chunk_name i"
  by (simp add: chunk_name_def temp_name_def)

lemma names_split_bounds:
  "set (entry_names s) - {temp_name f} \<subseteq> set (entry_names (snd (split_audio_by_size w f c s)))"
  "set (entry_names (snd (split_audio_by_size w f c s))) \<subseteq>
     set (entry_names s) \<union> chunk_name ` {0..<length (seg_chunks w)}"
  by (auto simp: split_audio_by_size_def step_defs Let_def dom_update keys_delete keys_write_chunks
      split: if_splits option.splits sum.splits prod.splits bool.splits)

lemma matches_part_not_temp: "matches_part n \<Longrightarrow> n \<noteq> temp_name f"
  by (auto simp: matches_part_def temp_name_def)


lemma names_split_calibrated:
  assumes "which_ffmpeg w" and "which_ffprobe w" and "source_is_file s" and "probe_exit w = 0"
    and "probe_value w = Some d"
  shows "set (entry_names (snd (split_audio_by_size w f c s))) \<subseteq>
     (set (entry_names s) - {temp_name f}) \<union> chunk_name ` {0..<length (seg_chunks w)}"
  using assms
  by (auto simp: split_audio_by_size_def step_defs Let_def dom_update keys_delete keys_write_chunks
      split: if_splits option.splits sum.splits prod.splits bool.splits)

lemma split_returns_sorted_glob:
  assumes "fst (split_audio_by_size w f c s) = Inr xs" and "seg_error w = None" and "seg_exit w = 0"
  shows "xs = sort (map (in_output_dir f) (glob_parts (snd (split_audio_by_size w f c s))))"
  using assms
  by (auto simp: split_audio_by_size_def run_segmentation_def collect_chunks_def glob_parts_def
      entry_names_def log_def print_out_def Let_def
      split: prod.splits sum.splits bool.splits if_splits option.splits)




subsection \<open>Sorting under an order-preserving map\<close>

lemma append_le_cancel: "p @ a \<le> p @ b \<longleftrightarrow> a \<le> (b :: 'a::linorder list)"
  by (induction p) simp_all

lemma in_output_dir_le: "in_output_dir f a \<le> in_output_dir f b \<longleftrightarrow> a \<le> b"
  using append_le_cancel [of "output_dir f @ ''/''" a b] by (simp add: in_output_dir_def)

lemma sort_map_mono:
  fixes f :: "'a::linorder \<Rightarrow> 'b::linorder"
  assumes "\<And>x y. x \<in> set xs \<Longrightarrow> y \<in> set xs \<Longrightarrow> x \<le> y \<Longrightarrow> f x \<le> f y"
  shows "sort (map f xs) = map f (sort xs)"
proof (rule properties_for_sort)
  show "mset (map f (sort xs)) = mset (map f xs)"
    by simp
  have "sorted_wrt (\<lambda>x y. f x \<le> f y) (sort xs)"
    using sorted_wrt_mono_rel [of "sort xs" "(\<le>)" "\<lambda>x y. f x \<le> f y"] assms by simp
  then show "sorted (map f (sort xs))"
    by (simp add: sorted_map)
qed

lemma chunk_name_le:
  assumes "i < 1000" and "j < 1000" and "i \<le> j"
  shows "chunk_name i \<le> chunk_name j"
  using assms chunk_name_less [of i j] by (cases "i = j") auto

subsection \<open>The segment duration\<close>

text \<open>
  C4, as the claim states it, fails: a chunk size of \<open>2^1023\<close> megabytes is a positive
  float, its product with 1024 is out of the range of a double, and \<open>math.floor\<close>
  of the infinite quotient raises \<open>OverflowError\<close>: no segment duration is computed.
\<close>

theorem segment_duration_overflow_counterexample:
  "(0::rat) < 2 ^ 1023 \<and> (0::rat) < 32000
   \<and> segment_duration (Finite (2 ^ 1023)) (Finite 32000) = Inl OverflowError"
  by (simp add: segment_duration_def float_defs round_double_def Let_def)

text \<open>
  C4, amended. For a positive finite chunk size \<open>c\<close> (in megabytes) and a positive
  finite calibration ratio \<open>r\<close> (bytes per second), the float quotient
  \<open>(c * 1024 * 1024) / r\<close> of lines 79-80 is either plus infinity, and then the
  procedure raises \<open>OverflowError\<close>, or a finite \<open>q\<close> that is not negative, and
  then the segment duration is the floor of \<open>q\<close>, replaced by 60 when that is not
  positive: a segment duration, when one is computed, is a positive integer. At 1 MB and
  32,000 bytes per second it is 32, as the instance after the theorem computes.
\<close>

theorem segment_duration_positive_or_overflow:
  assumes "0 < c" and "0 < r"
  shows "(py_truediv (py_mul (py_mul (Finite c) (Finite 1024)) (Finite 1024)) (Finite r) = Inr PosInf
          \<and> segment_duration (Finite c) (Finite r) = Inl OverflowError)
       \<or> (\<exists>q\<ge>0. py_truediv (py_mul (py_mul (Finite c) (Finite 1024)) (Finite 1024)) (Finite r) =
                   Inr (Finite q)
          \<and> segment_duration (Finite c) (Finite r) = Inr (if \<lfloor>q\<rfloor> \<le> 0 then 60 else \<lfloor>q\<rfloor>)
          \<and> 0 < (if \<lfloor>q\<rfloor> \<le> 0 then 60 else \<lfloor>q\<rfloor>))"
proof -
  have "nonneg_or_inf (Finite c)"
    using assms(1) by (simp add: nonneg_or_inf_def)
  then have "nonneg_or_inf (py_mul (py_mul (Finite c) (Finite 1024)) (Finite 1024))"
    by (intro py_mul_nonneg) simp_all
  then obtain q where q: "py_truediv (py_mul (py_mul (Finite c) (Finite 1024)) (Finite 1024)) (Finite r) = Inr q"
    and n: "nonneg_or_inf q"
    using py_truediv_nonneg [OF _ assms(2)] by blast
  show ?thesis
  proof (cases "q = PosInf")
    case True
    with q show ?thesis
      by (simp add: segment_duration_def py_floor_def)
  next
    case False
    with n obtain y where "q = Finite y" and "0 \<le> y"
      by (cases q) (auto simp: nonneg_or_inf_def)
    with q show ?thesis
      by (auto simp: segment_duration_def py_floor_def)
  qed
qed

theorem segment_duration_positive_or_overflow_witness:
  "(0::rat) < 1 \<and> (0::rat) < 32000 \<and> segment_duration (Finite 1) (Finite 32000) = Inr 32"
  using segment_duration_positive_or_overflow [of 1 32000] calc_world_ok(2) by simp

subsection \<open>The order of the precondition checks\<close>

text \<open>
  C6. When an executable is missing, the procedure raises the dependency-missing error
  having done nothing but look the executables up: the source path has not been
  examined. When both executables are there and the source path is not a file, it raises
  the source-not-found error after the two lookups and the one test of the path: no
  external tool has been run. In both cases nothing else of the state has changed.
\<close>

theorem precondition_checks_ordered:
  "(\<not> (which_ffmpeg w \<and> which_ffprobe w) \<longrightarrow>
      split_audio_by_size w f c (init_state isf dex es) =
        (Inl (RuntimeError DependencyMissing),
         (init_state isf dex es)
           \<lparr>trace := (if which_ffmpeg w then [Which ''ffmpeg'', Which ''ffprobe'']
                       else [Which ''ffmpeg''])\<rparr>))
   \<and> (which_ffmpeg w \<and> which_ffprobe w \<and> \<not> isf \<longrightarrow>
      split_audio_by_size w f c (init_state isf dex es) =
        (Inl (FileNotFoundError f),
         (init_state isf dex es)\<lparr>trace := [Which ''ffmpeg'', Which ''ffprobe'', IsFile f]\<rparr>))"
  by (simp add: split_audio_by_size_def check_dependencies_def check_source_def log_def
      init_state_def)

theorem precondition_checks_ordered_witness:
  "\<not> (which_ffmpeg (world_ok\<lparr>which_ffprobe := False\<rparr>)
        \<and> which_ffprobe (world_ok\<lparr>which_ffprobe := False\<rparr>))
   \<and> split_audio_by_size (world_ok\<lparr>which_ffprobe := False\<rparr>) ''/d/a.mp4'' (Finite 1)
         (init_state True False []) =
       (Inl (RuntimeError DependencyMissing),
        (init_state True False [])\<lparr>trace := [Which ''ffmpeg'', Which ''ffprobe'']\<rparr>)
   \<and> which_ffmpeg world_ok \<and> which_ffprobe world_ok \<and> \<not> False
   \<and> split_audio_by_size world_ok ''/d/a.mp4'' (Finite 1) (init_state False False []) =
       (Inl (FileNotFoundError ''/d/a.mp4''),
        (init_state False False [])
          \<lparr>trace := [Which ''ffmpeg'', Which ''ffprobe'', IsFile ''/d/a.mp4'']\<rparr>)"
  using precondition_checks_ordered
          [of "world_ok\<lparr>which_ffprobe := False\<rparr>" "''/d/a.mp4''" "Finite 1" True False "[]"]
        precondition_checks_ordered [of world_ok "''/d/a.mp4''" "Finite 1" False False "[]"]
  by (simp add: world_ok_def)

subsection \<open>A duration of zero\<close>

text \<open>
  C9. When the probe's output parses as 0.0 and the calibration encode has succeeded
  and left its file, line 78 divides the file's size by zero: the procedure raises
  \<open>ZeroDivisionError\<close>, which is none of the specification's error kinds, and the
  segmenting encode is never started, so no fallback of 60 seconds is applied.
\<close>

theorem zero_duration_raises_zero_division:
  assumes "which_ffmpeg w" and "which_ffprobe w"
    and "probe_exit w = 0" and "probe_value w = Some (Finite 0)"
    and "calib_exit w = 0" and "calib_written w = Some z"
  shows "fst (split_audio_by_size w f c (init_state True dex es)) = Inl ZeroDivisionError
         \<and> \<not> defined_error_kind f ZeroDivisionError
         \<and> Run FfmpegSegment \<notin> set (trace (snd (split_audio_by_size w f c (init_state True dex es))))"
  using assms
  by (simp add: split_audio_by_size_def step_defs bytes_per_second_def py_truediv_def defined_error_kind_def
      update_conv' Let_def)

theorem zero_duration_raises_zero_division_witness:
  "which_ffmpeg (world_ok\<lparr>probe_value := Some (Finite 0)\<rparr>)
   \<and> which_ffprobe (world_ok\<lparr>probe_value := Some (Finite 0)\<rparr>)
   \<and> probe_exit (world_ok\<lparr>probe_value := Some (Finite 0)\<rparr>) = 0
   \<and> probe_value (world_ok\<lparr>probe_value := Some (Finite 0)\<rparr>) = Some (Finite 0)
   \<and> calib_exit (world_ok\<lparr>probe_value := Some (Finite 0)\<rparr>) = 0
   \<and> calib_written (world_ok\<lparr>probe_value := Some (Finite 0)\<rparr>) = Some 3200000
   \<and> fst (split_audio_by_size (world_ok\<lparr>probe_value := Some (Finite 0)\<rparr>) ''/d/a.mp4''
            (Finite 1) (init_state True False [])) = Inl ZeroDivisionError"
  using zero_duration_raises_zero_division
          [of "world_ok\<lparr>probe_value := Some (Finite 0)\<rparr>" 3200000 "''/d/a.mp4''" "Finite 1"
              False "[]"]
  by (simp add: world_ok_def)

subsection \<open>A probe whose output does not parse\<close>

text \<open>
  C7. The probe exits with code 0 and prints something \<open>float\<close> rejects (ffprobe prints
  \<open>N/A\<close> for a stream without a known duration). The handler of lines 51-52 catches the
  \<open>ValueError\<close> and then reads \<open>e.stderr\<close>, which a \<open>ValueError\<close> does not have: what
  the procedure raises is \<open>AttributeError\<close>, not the probe-failure error, and \<open>main\<close>
  does not catch it.
\<close>

theorem unparsable_probe_raises_attribute_error:
  "fst (split_audio_by_size (world_ok\<lparr>probe_value := None\<rparr>) ''/d/a.mp4'' (Finite 1)
          (init_state True False [])) = Inl AttributeError
   \<and> \<not> defined_error_kind ''/d/a.mp4'' AttributeError
   \<and> fst (main (world_ok\<lparr>probe_value := None\<rparr>) ''/d/a.mp4'' (Finite 1)
          (init_state True False [])) = Uncaught AttributeError"
  by (simp add: main_def split_audio_by_size_def step_defs world_ok_def defined_error_kind_def
      caught_by_main_def)

subsection \<open>A segmenting encode that fails\<close>

text \<open>
  C1, as the claim states it, fails: here the segmenting encode is run, exits with
  code 1, and the procedure raises nothing: it returns a list, the empty one.
\<close>

theorem segmentation_failure_counterexample:
  "seg_exit (world_ok\<lparr>seg_exit := 1\<rparr>) \<noteq> 0
   \<and> Run FfmpegSegment \<in> set (trace (snd (split_audio_by_size (world_ok\<lparr>seg_exit := 1\<rparr>)
         ''/d/a.mp4'' (Finite 1) (init_state True False []))))
   \<and> fst (split_audio_by_size (world_ok\<lparr>seg_exit := 1\<rparr>) ''/d/a.mp4'' (Finite 1)
          (init_state True False [])) = Inr []"
  by (simp add: split_audio_by_size_def step_defs calc_world_ok path_defs world_ok_def Let_def)

text \<open>
  C1, amended. Whenever the segmenting encode is run and exits with a non-zero code, or
  lines 113-129 raise before the exit code is read, the procedure returns the empty
  list: no error reaches the caller. On the error stream are the drawings of the
  progress bar and after them the one message of the handler, which shows the exception
  it caught: the one lines 113-129 raised if they raised one, else the \<open>RuntimeError\<close>
  of line 136 with the exit code.
\<close>

theorem segmentation_failure_returns_empty:
  assumes "Run FfmpegSegment \<in> set (trace (snd (split_audio_by_size w f c (init_state isf dex es))))"
    and "seg_error w \<noteq> None \<or> seg_exit w \<noteq> 0"
  shows "fst (split_audio_by_size w f c (init_state isf dex es)) = Inr []
         \<and> stderr (snd (split_audio_by_size w f c (init_state isf dex es))) =
             replicate (bar_renders w) ProgressBar @
             [MsgSplitError (case seg_error w of
                               None \<Rightarrow> RuntimeError (SegmentationFailed (seg_exit w))
                             | Some e \<Rightarrow> e)]"
  using assms
  by (auto simp: split_audio_by_size_def step_defs Let_def
      split: if_splits option.splits sum.splits prod.splits)

theorem segmentation_failure_returns_empty_witness:
  "Run FfmpegSegment \<in> set (trace (snd (split_audio_by_size (world_ok\<lparr>seg_exit := 2\<rparr>)
         ''/d/a.mp4'' (Finite 1) (init_state True False []))))
   \<and> seg_exit (world_ok\<lparr>seg_exit := 2\<rparr>) \<noteq> 0
   \<and> fst (split_audio_by_size (world_ok\<lparr>seg_exit := 2\<rparr>) ''/d/a.mp4'' (Finite 1)
           (init_state True False [])) = Inr []
   \<and> stderr (snd (split_audio_by_size (world_ok\<lparr>seg_exit := 2\<rparr>) ''/d/a.mp4'' (Finite 1)
           (init_state True False []))) =
       [ProgressBar, ProgressBar, MsgSplitError (RuntimeError (SegmentationFailed 2))]
   \<and> Run FfmpegSegment \<in> set (trace (snd (split_audio_by_size
         (world_ok\<lparr>seg_error := Some UnicodeDecodeError\<rparr>)
         ''/d/a.mp4'' (Finite 1) (init_state True False []))))
   \<and> seg_error (world_ok\<lparr>seg_error := Some UnicodeDecodeError\<rparr>) \<noteq> None
   \<and> seg_exit (world_ok\<lparr>seg_error := Some UnicodeDecodeError\<rparr>) = 0
   \<and> fst (split_audio_by_size (world_ok\<lparr>seg_error := Some UnicodeDecodeError\<rparr>) ''/d/a.mp4''
           (Finite 1) (init_state True False [])) = Inr []
   \<and> stderr (snd (split_audio_by_size (world_ok\<lparr>seg_error := Some UnicodeDecodeError\<rparr>)
           ''/d/a.mp4'' (Finite 1) (init_state True False []))) =
       [ProgressBar, ProgressBar, MsgSplitError UnicodeDecodeError]"
proof -
  have run: "Run FfmpegSegment \<in> set (trace (snd (split_audio_by_size (world_ok\<lparr>seg_exit := 2\<rparr>)
         ''/d/a.mp4'' (Finite 1) (init_state True False []))))"
    "Run FfmpegSegment \<in> set (trace (snd (split_audio_by_size
         (world_ok\<lparr>seg_error := Some UnicodeDecodeError\<rparr>)
         ''/d/a.mp4'' (Finite 1) (init_state True False []))))"
    by (simp_all add: split_audio_by_size_def step_defs calc_world_ok path_defs world_ok_def Let_def)
  have ex: "seg_exit (world_ok\<lparr>seg_exit := 2\<rparr>) \<noteq> 0"
    "seg_error (world_ok\<lparr>seg_error := Some UnicodeDecodeError\<rparr>) \<noteq> None"
    "seg_exit (world_ok\<lparr>seg_error := Some UnicodeDecodeError\<rparr>) = 0"
    by (simp_all add: world_ok_def)
  show ?thesis
    using run ex
      segmentation_failure_returns_empty [of "world_ok\<lparr>seg_exit := 2\<rparr>" "''/d/a.mp4''"
        "Finite 1" True False "[]"]
      segmentation_failure_returns_empty [of "world_ok\<lparr>seg_error := Some UnicodeDecodeError\<rparr>"
        "''/d/a.mp4''" "Finite 1" True False "[]"]
    by (simp add: world_ok_def numeral_2_eq_2)
qed

subsection \<open>The exit code\<close>

text \<open>
  C3, as the claim states it, fails: here the segmenting encode is run and exits with
  code 1, and \<open>main\<close> does not exit with code 1.
\<close>

theorem main_exit_code_counterexample:
  "seg_exit (world_ok\<lparr>seg_exit := 1\<rparr>) \<noteq> 0
   \<and> Run FfmpegSegment \<in> set (trace (snd (main (world_ok\<lparr>seg_exit := 1\<rparr>)
         ''/d/a.mp4'' (Finite 1) (init_state True False []))))
   \<and> exit_code (fst (main (world_ok\<lparr>seg_exit := 1\<rparr>) ''/d/a.mp4'' (Finite 1)
        (init_state True False []))) \<noteq> 1"
  by (simp add: main_def exit_code_def split_audio_by_size_def step_defs calc_world_ok path_defs
      world_ok_def Let_def)

text \<open>
  C3, amended. \<open>main\<close> exits with code 0 whenever the procedure returns a list, and
  then prints nothing on the error stream itself; it exits with code 1, its one message
  alone on the error stream, whenever the procedure raises a \<open>FileNotFoundError\<close> or a
  \<open>RuntimeError\<close>. A missing executable, a missing source, a probe that exits non-zero
  with output that can be decoded, and a calibration encode that exits non-zero with
  UTF-8 on its error stream are such failures. A failure of the segmenting stage is not:
  the procedure has printed its message after the progress bar and returned the empty
  list, and the exit code is 0.
\<close>

theorem main_exit_codes:
  "(\<forall>xs. fst (split_audio_by_size w f c (init_state isf dex es)) = Inr xs \<longrightarrow>
      exit_code (fst (main w f c (init_state isf dex es))) = 0
      \<and> stderr (snd (main w f c (init_state isf dex es))) =
          stderr (snd (split_audio_by_size w f c (init_state isf dex es))))
   \<and> (\<forall>e. fst (split_audio_by_size w f c (init_state isf dex es)) = Inl e \<and> caught_by_main e \<longrightarrow>
      exit_code (fst (main w f c (init_state isf dex es))) = 1
      \<and> stderr (snd (main w f c (init_state isf dex es))) = [MsgCritical e])
   \<and> (\<not> which_ffmpeg w \<or> \<not> which_ffprobe w \<or> \<not> isf
        \<or> (probe_exit w \<noteq> 0 \<and> probe_decodes w)
        \<or> (probe_exit w = 0 \<and> probe_value w \<noteq> None \<and> calib_exit w \<noteq> 0 \<and> calib_stderr_utf8 w)
      \<longrightarrow>
      (\<exists>e. fst (split_audio_by_size w f c (init_state isf dex es)) = Inl e \<and> caught_by_main e))
   \<and> (Run FfmpegSegment \<in> set (trace (snd (split_audio_by_size w f c (init_state isf dex es))))
        \<and> (seg_error w \<noteq> None \<or> seg_exit w \<noteq> 0) \<longrightarrow>
      exit_code (fst (main w f c (init_state isf dex es))) = 0
      \<and> stderr (snd (main w f c (init_state isf dex es))) =
          replicate (bar_renders w) ProgressBar @
          [MsgSplitError (case seg_error w of
                            None \<Rightarrow> RuntimeError (SegmentationFailed (seg_exit w))
                          | Some e \<Rightarrow> e)])"
proof -
  obtain r s1 where run: "split_audio_by_size w f c (init_state isf dex es) = (r, s1)"
    by (cases "split_audio_by_size w f c (init_state isf dex es)")
  have a: "exit_code (fst (main w f c (init_state isf dex es))) = 0
      \<and> stderr (snd (main w f c (init_state isf dex es))) = stderr s1" if "r = Inr xs" for xs
    using main_after_list [of w f c "init_state isf dex es" xs s1] run that
    by (simp add: exit_code_def)
  have b: "exit_code (fst (main w f c (init_state isf dex es))) = 1
      \<and> stderr (snd (main w f c (init_state isf dex es))) = [MsgCritical e]"
    if "r = Inl e" and "caught_by_main e" for e
    using main_after_caught [of w f c "init_state isf dex es" e s1] run that
      split_error_prints_nothing [of w f c isf dex es e s1]
    by (simp add: exit_code_def)
  have d: "exit_code (fst (main w f c (init_state isf dex es))) = 0
      \<and> stderr (snd (main w f c (init_state isf dex es))) =
          replicate (bar_renders w) ProgressBar @
          [MsgSplitError (case seg_error w of
                            None \<Rightarrow> RuntimeError (SegmentationFailed (seg_exit w))
                          | Some e \<Rightarrow> e)]"
    if "Run FfmpegSegment \<in> set (trace (snd (split_audio_by_size w f c (init_state isf dex es))))"
      and "seg_error w \<noteq> None \<or> seg_exit w \<noteq> 0"
    using split_segmentation_failed [OF that] a [of "[]"] run by auto
  show ?thesis
    using a b d split_caught_failures [of w isf f c dex es] run by auto
qed

theorem main_exit_codes_witness:
  "fst (split_audio_by_size world_ok ''/d/a.mp4'' (Finite 1) (init_state False False [])) =
      Inl (FileNotFoundError ''/d/a.mp4'')
   \<and> caught_by_main (FileNotFoundError ''/d/a.mp4'')
   \<and> exit_code (fst (main world_ok ''/d/a.mp4'' (Finite 1) (init_state False False []))) = 1
   \<and> stderr (snd (main world_ok ''/d/a.mp4'' (Finite 1) (init_state False False []))) =
       [MsgCritical (FileNotFoundError ''/d/a.mp4'')]
   \<and> fst (split_audio_by_size world_ok ''/d/a.mp4'' (Finite 1) (init_state True False [])) =
       Inr [''/d/a_chunks/part_000.flac'', ''/d/a_chunks/part_001.flac'',
            ''/d/a_chunks/part_002.flac'', ''/d/a_chunks/part_003.flac'']
   \<and> exit_code (fst (main world_ok ''/d/a.mp4'' (Finite 1) (init_state True False []))) = 0
   \<and> Run FfmpegSegment \<in> set (trace (snd (split_audio_by_size (world_ok\<lparr>seg_exit := 1\<rparr>)
         ''/d/a.mp4'' (Finite 1) (init_state True False []))))
   \<and> seg_exit (world_ok\<lparr>seg_exit := 1\<rparr>) \<noteq> 0
   \<and> exit_code (fst (main (world_ok\<lparr>seg_exit := 1\<rparr>) ''/d/a.mp4'' (Finite 1)
         (init_state True False []))) = 0
   \<and> stderr (snd (main (world_ok\<lparr>seg_exit := 1\<rparr>) ''/d/a.mp4'' (Finite 1)
         (init_state True False []))) =
       [ProgressBar, ProgressBar, MsgSplitError (RuntimeError (SegmentationFailed 1))]"
proof -
  have r: "Run FfmpegSegment \<in> set (trace (snd (split_audio_by_size (world_ok\<lparr>seg_exit := 1\<rparr>)
         ''/d/a.mp4'' (Finite 1) (init_state True False []))))"
    by (simp add: split_audio_by_size_def step_defs calc_world_ok path_defs world_ok_def Let_def)
  have x: "seg_exit (world_ok\<lparr>seg_exit := 1\<rparr>) \<noteq> 0"
    by (simp add: world_ok_def)
  have e: "fst (split_audio_by_size world_ok ''/d/a.mp4'' (Finite 1) (init_state False False [])) =
      Inl (FileNotFoundError ''/d/a.mp4'')"
    by (simp add: split_audio_by_size_def step_defs world_ok_def)
  have c: "caught_by_main (FileNotFoundError ''/d/a.mp4'')"
    by (simp add: caught_by_main_def)
  have l: "fst (split_audio_by_size world_ok ''/d/a.mp4'' (Finite 1) (init_state True False [])) =
       Inr [''/d/a_chunks/part_000.flac'', ''/d/a_chunks/part_001.flac'',
            ''/d/a_chunks/part_002.flac'', ''/d/a_chunks/part_003.flac'']"
    by (simp add: split_audio_by_size_def step_defs calc_world_ok path_defs world_ok_def Let_def
        chunk_eval)
  show ?thesis
    using e c l r x main_exit_codes [of world_ok "''/d/a.mp4''" "Finite 1" False False "[]"]
      main_exit_codes [of world_ok "''/d/a.mp4''" "Finite 1" True False "[]"]
      main_exit_codes [of "world_ok\<lparr>seg_exit := 1\<rparr>" "''/d/a.mp4''" "Finite 1" True False "[]"]
    by (simp add: world_ok_def numeral_2_eq_2)
qed

subsection \<open>The calibration file\<close>

text \<open>
  C5. After the procedure has returned, by whichever path, the calibration file is not
  in the output directory: whenever the calibration step was reached (both executables
  found, the source a file, the probe successful and parsed), whether the calibration
  encode, the arithmetic after it or the segmenting encode then succeeded or failed, and
  also on the earlier exits, where the file was not there before and nothing creates it.
\<close>

theorem temp_file_removed:
  assumes "(which_ffmpeg w \<and> which_ffprobe w \<and> source_is_file s \<and> probe_exit w = 0
            \<and> probe_value w \<noteq> None)
           \<or> temp_name f \<notin> set (entry_names s)"
  shows "temp_name f \<notin> set (entry_names (snd (split_audio_by_size w f c s)))"
  using assms
proof
  assume "temp_name f \<notin> set (entry_names s)"
  then show ?thesis
    using names_split_bounds(2) [of w f c s] by (auto simp: temp_not_chunk_name)
next
  assume a: "which_ffmpeg w \<and> which_ffprobe w \<and> source_is_file s \<and> probe_exit w = 0
            \<and> probe_value w \<noteq> None"
  then obtain d where "probe_value w = Some d"
    by auto
  with a show ?thesis
    using names_split_calibrated [of w s d f c] by (auto simp: temp_not_chunk_name)
qed

theorem temp_file_removed_witness:
  "which_ffmpeg (world_ok\<lparr>calib_exit := 1\<rparr>) \<and> which_ffprobe (world_ok\<lparr>calib_exit := 1\<rparr>)
   \<and> source_is_file (init_state True True [(''temp_a.flac'', 7)])
   \<and> probe_exit (world_ok\<lparr>calib_exit := 1\<rparr>) = 0
   \<and> probe_value (world_ok\<lparr>calib_exit := 1\<rparr>) \<noteq> None
   \<and> temp_name ''/d/a.mp4'' \<in> set (entry_names (init_state True True [(''temp_a.flac'', 7)]))
   \<and> fst (split_audio_by_size (world_ok\<lparr>calib_exit := 1\<rparr>) ''/d/a.mp4'' (Finite 1)
          (init_state True True [(''temp_a.flac'', 7)])) = Inl (RuntimeError CalibrationFailed)
   \<and> temp_name ''/d/a.mp4'' \<notin> set (entry_names (snd (split_audio_by_size
          (world_ok\<lparr>calib_exit := 1\<rparr>) ''/d/a.mp4'' (Finite 1)
          (init_state True True [(''temp_a.flac'', 7)]))))
   \<and> temp_name ''/d/a.mp4'' \<notin> set (entry_names (init_state False False [(''part_000.flac'', 7)]))
   \<and> temp_name ''/d/a.mp4'' \<notin> set (entry_names (snd (split_audio_by_size
          world_ok ''/d/a.mp4'' (Finite 1) (init_state False False [(''part_000.flac'', 7)]))))"
proof -
  have t: "temp_name ''/d/a.mp4'' = ''temp_a.flac''"
    by (simp add: path_defs)
  have e: "fst (split_audio_by_size (world_ok\<lparr>calib_exit := 1\<rparr>) ''/d/a.mp4'' (Finite 1)
          (init_state True True [(''temp_a.flac'', 7)])) = Inl (RuntimeError CalibrationFailed)"
    by (simp add: split_audio_by_size_def step_defs calc_world_ok world_ok_def Let_def)
  show ?thesis
    using e temp_file_removed [of "world_ok\<lparr>calib_exit := 1\<rparr>"
          "init_state True True [(''temp_a.flac'', 7)]" "''/d/a.mp4''" "Finite 1"]
      temp_file_removed [of world_ok "init_state False False [(''part_000.flac'', 7)]"
          "''/d/a.mp4''" "Finite 1"]
    by (simp add: t world_ok_def init_state_def entry_names_def)
qed

subsection \<open>Chunks left over from an earlier run\<close>

text \<open>
  C10. The procedure removes nothing from the output directory but its own calibration
  file: every other name that was there before is there afterwards. When it reaches the
  enumeration of line 143, that is when lines 113-129 raised nothing and the encoder
  exited with code 0, the list it returns is exactly the sorted paths of the entries
  that match \<open>part_*.flac\<close> at that moment, so every matching entry that was there
  before the run, such as a chunk of an earlier run, is in the list.
\<close>

theorem leftover_chunks_returned:
  "set (entry_names s) - {temp_name f} \<subseteq> set (entry_names (snd (split_audio_by_size w f c s)))
   \<and> (\<forall>xs. fst (split_audio_by_size w f c s) = Inr xs \<and> seg_error w = None \<and> seg_exit w = 0
          \<longrightarrow>
        xs = sort (map (in_output_dir f)
               (filter matches_part (entry_names (snd (split_audio_by_size w f c s)))))
        \<and> (\<forall>n \<in> set (entry_names s). matches_part n \<longrightarrow> in_output_dir f n \<in> set xs))"
proof (intro conjI allI impI)
  show "set (entry_names s) - {temp_name f} \<subseteq> set (entry_names (snd (split_audio_by_size w f c s)))"
    by (rule names_split_bounds(1))
next
  fix xs
  assume a: "fst (split_audio_by_size w f c s) = Inr xs \<and> seg_error w = None \<and> seg_exit w = 0"
  then show eq: "xs = sort (map (in_output_dir f)
               (filter matches_part (entry_names (snd (split_audio_by_size w f c s)))))"
    using split_returns_sorted_glob [of w f c s xs] by (simp add: glob_parts_def)
  show "\<forall>n \<in> set (entry_names s). matches_part n \<longrightarrow> in_output_dir f n \<in> set xs"
  proof (intro ballI impI)
    fix n
    assume n: "n \<in> set (entry_names s)" "matches_part n"
    then have "n \<in> set (entry_names (snd (split_audio_by_size w f c s)))"
      using names_split_bounds(1) [of s f w c] matches_part_not_temp [of n f] by auto
    with n(2) have "in_output_dir f n \<in> set (sort (map (in_output_dir f)
               (filter matches_part (entry_names (snd (split_audio_by_size w f c s))))))"
      by simp
    with eq show "in_output_dir f n \<in> set xs"
      by simp
  qed
qed

theorem leftover_chunks_returned_witness:
  "fst (split_audio_by_size world_ok ''/d/a.mp4'' (Finite 1)
          (init_state True True [(''part_007.flac'', 5), (''notes.txt'', 1)])) =
     Inr [''/d/a_chunks/part_000.flac'', ''/d/a_chunks/part_001.flac'',
          ''/d/a_chunks/part_002.flac'', ''/d/a_chunks/part_003.flac'',
          ''/d/a_chunks/part_007.flac'']
   \<and> seg_error world_ok = None \<and> seg_exit world_ok = 0
   \<and> ''part_007.flac'' \<in> set (entry_names (init_state True True [(''part_007.flac'', 5), (''notes.txt'', 1)]))
   \<and> matches_part ''part_007.flac''
   \<and> in_output_dir ''/d/a.mp4'' ''part_007.flac'' \<in>
       set [''/d/a_chunks/part_000.flac'', ''/d/a_chunks/part_001.flac'',
            ''/d/a_chunks/part_002.flac'', ''/d/a_chunks/part_003.flac'',
            ''/d/a_chunks/part_007.flac'']
   \<and> ''notes.txt'' \<in> set (entry_names (snd (split_audio_by_size world_ok ''/d/a.mp4'' (Finite 1)
          (init_state True True [(''part_007.flac'', 5), (''notes.txt'', 1)]))))"
proof -
  have l: "fst (split_audio_by_size world_ok ''/d/a.mp4'' (Finite 1)
          (init_state True True [(''part_007.flac'', 5), (''notes.txt'', 1)])) =
     Inr [''/d/a_chunks/part_000.flac'', ''/d/a_chunks/part_001.flac'',
          ''/d/a_chunks/part_002.flac'', ''/d/a_chunks/part_003.flac'',
          ''/d/a_chunks/part_007.flac'']"
    by (simp add: split_audio_by_size_def step_defs calc_world_ok path_defs world_ok_def Let_def
        chunk_eval)
  have x: "seg_error world_ok = None" "seg_exit world_ok = 0"
    by (simp_all add: world_ok_def)
  have n: "''part_007.flac'' \<in> set (entry_names (init_state True True [(''part_007.flac'', 5), (''notes.txt'', 1)]))"
    "''notes.txt'' \<in> set (entry_names (init_state True True [(''part_007.flac'', 5), (''notes.txt'', 1)]))"
    by (simp_all add: init_state_def entry_names_def)
  have m: "matches_part ''part_007.flac''"
    by (simp add: matches_part_def)
  have t: "''notes.txt'' \<noteq> temp_name ''/d/a.mp4''"
    by (simp add: path_defs)
  note inst = leftover_chunks_returned
      [of "init_state True True [(''part_007.flac'', 5), (''notes.txt'', 1)]" "''/d/a.mp4''"
          world_ok "Finite 1"]
  from inst l x have "\<forall>n \<in> set (entry_names (init_state True True
        [(''part_007.flac'', 5), (''notes.txt'', 1)])).
      matches_part n \<longrightarrow> in_output_dir ''/d/a.mp4'' n \<in>
       set [''/d/a_chunks/part_000.flac'', ''/d/a_chunks/part_001.flac'',
            ''/d/a_chunks/part_002.flac'', ''/d/a_chunks/part_003.flac'',
            ''/d/a_chunks/part_007.flac'']"
    by blast
  with n(1) m have p: "in_output_dir ''/d/a.mp4'' ''part_007.flac'' \<in>
       set [''/d/a_chunks/part_000.flac'', ''/d/a_chunks/part_001.flac'',
            ''/d/a_chunks/part_002.flac'', ''/d/a_chunks/part_003.flac'',
            ''/d/a_chunks/part_007.flac'']"
    by blast
  from inst n(2) t have q: "''notes.txt'' \<in> set (entry_names (snd (split_audio_by_size world_ok
          ''/d/a.mp4'' (Finite 1)
          (init_state True True [(''part_007.flac'', 5), (''notes.txt'', 1)]))))"
    by blast
  from l x n(1) m p q show ?thesis
    by (intro conjI)
qed

subsection \<open>The order of the returned chunks\<close>

text \<open>
  C8. For chunk indices below 1000 the names \<open>part_NNN.flac\<close> compare as their
  indices do, so sorting the names is sorting by index; and when the procedure reaches
  the enumeration of line 143 and the entries that match the pattern are the chunks of
  the indices \<open>ks\<close>, in whatever order the directory lists them, it returns their paths
  in ascending order of index.
\<close>

theorem chunk_order_is_numeric:
  assumes "\<forall>i \<in> set ks. i < 1000"
  shows "(\<forall>i \<in> set ks. \<forall>j \<in> set ks. (chunk_name i < chunk_name j) = (i < j))
     \<and> sort (map chunk_name ks) = map chunk_name (sort ks)
     \<and> (fst (split_audio_by_size w f c s) = Inr xs \<and> seg_error w = None \<and> seg_exit w = 0
          \<and> glob_parts (snd (split_audio_by_size w f c s)) = map chunk_name ks \<longrightarrow>
        xs = map (\<lambda>i. in_output_dir f (chunk_name i)) (sort ks))"
proof (intro conjI impI)
  show "\<forall>i \<in> set ks. \<forall>j \<in> set ks. (chunk_name i < chunk_name j) = (i < j)"
    using assms by (simp add: chunk_name_less)
  show names: "sort (map chunk_name ks) = map chunk_name (sort ks)"
    using assms by (intro sort_map_mono chunk_name_le) auto
  assume a: "fst (split_audio_by_size w f c s) = Inr xs \<and> seg_error w = None \<and> seg_exit w = 0
          \<and> glob_parts (snd (split_audio_by_size w f c s)) = map chunk_name ks"
  then have "xs = sort (map (in_output_dir f) (map chunk_name ks))"
    using split_returns_sorted_glob [of w f c s xs] by simp
  also have "\<dots> = map (in_output_dir f) (sort (map chunk_name ks))"
    by (intro sort_map_mono) (simp add: in_output_dir_le)
  finally show "xs = map (\<lambda>i. in_output_dir f (chunk_name i)) (sort ks)"
    by (simp add: names)
qed

theorem chunk_order_is_numeric_witness:
  "(7::nat) < 1000 \<and> (0::nat) < 1000 \<and> (1::nat) < 1000 \<and> (2::nat) < 1000 \<and> (3::nat) < 1000
   \<and> fst (split_audio_by_size world_ok ''/d/a.mp4'' (Finite 1)
          (init_state True True [(''part_007.flac'', 5)])) =
       Inr [''/d/a_chunks/part_000.flac'', ''/d/a_chunks/part_001.flac'',
            ''/d/a_chunks/part_002.flac'', ''/d/a_chunks/part_003.flac'',
            ''/d/a_chunks/part_007.flac'']
   \<and> seg_error world_ok = None \<and> seg_exit world_ok = 0
   \<and> glob_parts (snd (split_audio_by_size world_ok ''/d/a.mp4'' (Finite 1)
          (init_state True True [(''part_007.flac'', 5)]))) = map chunk_name [7, 0, 1, 2, 3]
   \<and> sort (map chunk_name [7, 0, 1, 2, 3]) = map chunk_name (sort [7, 0, 1, 2, 3])
   \<and> [''/d/a_chunks/part_000.flac'', ''/d/a_chunks/part_001.flac'',
        ''/d/a_chunks/part_002.flac'', ''/d/a_chunks/part_003.flac'',
        ''/d/a_chunks/part_007.flac''] =
       map (\<lambda>i. in_output_dir ''/d/a.mp4'' (chunk_name i)) (sort [7, 0, 1, 2, 3])"
proof -
  have k: "\<forall>i \<in> set [7, 0, 1, 2, 3]. i < (1000::nat)"
    by simp
  have l: "fst (split_audio_by_size world_ok ''/d/a.mp4'' (Finite 1)
          (init_state True True [(''part_007.flac'', 5)])) =
       Inr [''/d/a_chunks/part_000.flac'', ''/d/a_chunks/part_001.flac'',
            ''/d/a_chunks/part_002.flac'', ''/d/a_chunks/part_003.flac'',
            ''/d/a_chunks/part_007.flac'']"
    by (simp add: split_audio_by_size_def step_defs calc_world_ok path_defs world_ok_def Let_def
        chunk_eval)
  have x: "seg_error world_ok = None" "seg_exit world_ok = 0"
    by (simp_all add: world_ok_def)
  have names: "map chunk_name [7, 0, 1, 2, 3] =
      [''part_007.flac'', ''part_000.flac'', ''part_001.flac'', ''part_002.flac'',
       ''part_003.flac'']"
    by (simp add: chunk_name_small digit_char_values digit_char_Suc_0)
  have g: "glob_parts (snd (split_audio_by_size world_ok ''/d/a.mp4'' (Finite 1)
          (init_state True True [(''part_007.flac'', 5)]))) = map chunk_name [7, 0, 1, 2, 3]"
    unfolding names
    by (simp add: split_audio_by_size_def step_defs calc_world_ok path_defs world_ok_def Let_def
        chunk_eval)
  note inst = chunk_order_is_numeric [OF k, of world_ok "''/d/a.mp4''" "Finite 1"
      "init_state True True [(''part_007.flac'', 5)]"
      "[''/d/a_chunks/part_000.flac'', ''/d/a_chunks/part_001.flac'',
        ''/d/a_chunks/part_002.flac'', ''/d/a_chunks/part_003.flac'',
        ''/d/a_chunks/part_007.flac'']"]
  from inst have s: "sort (map chunk_name [7, 0, 1, 2, 3]) = map chunk_name (sort [7, 0, 1, 2, 3])"
    by blast
  from inst l x g have r: "[''/d/a_chunks/part_000.flac'', ''/d/a_chunks/part_001.flac'',
        ''/d/a_chunks/part_002.flac'', ''/d/a_chunks/part_003.flac'',
        ''/d/a_chunks/part_007.flac''] =
       map (\<lambda>i. in_output_dir ''/d/a.mp4'' (chunk_name i)) (sort [7, 0, 1, 2, 3])"
    by blast
  have b: "(7::nat) < 1000" "(0::nat) < 1000" "(1::nat) < 1000" "(2::nat) < 1000" "(3::nat) < 1000"
    by simp_all
  from b l x g s r show ?thesis
    by (intro conjI)
qed

subsection \<open>The outcomes of a run\<close>




end
